theory Spec2Isabelle
  imports Main
begin

section \<open>Python values and exceptions\<close>

text \<open>
  The Component of \<^verbatim>\<open>ipymediator/interface/component.py\<close> wraps one widget of the
  ipywidgets toolkit and forwards the changes of its traits to a Mediator. Objects live
  in a store and are named by their address, so that the widget held by a Component and
  the handler held by the widget are references, as in Python.
\<close>

type_synonym addr = nat

text \<open>
  The Python values a trait or attribute can hold. \<open>PObj\<close> is any other object (a bound
  method, a style object), known by its identity only.
\<close>

datatype pyval =
    PNone
  | PBool bool
  | PInt int
  | PStr string
  | PTuple "pyval list"
  | PObj addr

text \<open>Python's truth value, as \<^verbatim>\<open>not x\<close> and \<^verbatim>\<open>x or y\<close> test it.\<close>

fun truthy :: "pyval \<Rightarrow> bool" where
  "truthy PNone = False"
| "truthy (PBool b) = b"
| "truthy (PInt i) = (i \<noteq> 0)"
| "truthy (PStr s) = (s \<noteq> [])"
| "truthy (PTuple xs) = (xs \<noteq> [])"
| "truthy (PObj a) = True"

text \<open>
  Python's \<^verbatim>\<open>==\<close>: \<^verbatim>\<open>bool\<close> is a subclass of \<^verbatim>\<open>int\<close>, so \<^verbatim>\<open>True == 1\<close>; tuples compare
  element by element; any other object compares by identity.
\<close>

fun num_of :: "pyval \<Rightarrow> int option" where
  "num_of (PBool b) = Some (if b then 1 else 0)"
| "num_of (PInt i) = Some i"
| "num_of PNone = None"
| "num_of (PStr s) = None"
| "num_of (PTuple xs) = None"
| "num_of (PObj a) = None"

fun py_eq :: "pyval \<Rightarrow> pyval \<Rightarrow> bool"
  and py_eq_list :: "pyval list \<Rightarrow> pyval list \<Rightarrow> bool" where
  "py_eq (PTuple xs) (PTuple ys) = py_eq_list xs ys"
| "py_eq (PStr a) (PStr b) = (a = b)"
| "py_eq PNone PNone = True"
| "py_eq (PObj a) (PObj b) = (a = b)"
| "py_eq x y = (case num_of x of None \<Rightarrow> False
                | Some i \<Rightarrow> (case num_of y of None \<Rightarrow> False | Some j \<Rightarrow> i = j))"
| "py_eq_list [] [] = True"
| "py_eq_list (x # xs) (y # ys) = (py_eq x y \<and> py_eq_list xs ys)"
| "py_eq_list [] (y # ys) = False"
| "py_eq_list (x # xs) [] = False"

text \<open>
  The exceptions of the program. \<open>AttributeError c n\<close> is "\<open>c\<close> object has no attribute
  \<open>n\<close>"; \<open>TypeError f p\<close> is "\<open>f\<close>() missing 1 required positional argument: \<open>p\<close>";
  \<open>TraitError c n\<close> is the toolkit's refusal of a trait write on trait \<open>n\<close> of
  class \<open>c\<close>; \<open>ValueError text names cause\<close> is the f-string
  \<^verbatim>\<open>f"check 'names' parameter: {names}"\<close> (its literal text and the tuple it
  interpolates) raised \<^verbatim>\<open>from\<close> the exception \<open>cause\<close>; \<open>Raised k\<close> is any other
  exception, which a Mediator may raise.
\<close>

datatype error =
    AttributeError string string
  | TypeError string string
  | TraitError string string
  | ValueError string "string list" error
  | Raised nat

section \<open>The widget toolkit\<close>

text \<open>
  What the Component uses of a widget (ipywidgets on traitlets): its class name, whether
  it is a \<^verbatim>\<open>widgets.Button\<close>, its traits (each with its current value and its
  validator, which refuses a value or returns the value to store, possibly coerced), its
  other attributes (methods, properties, plain instance attributes), the handlers
  registered with \<^verbatim>\<open>observe\<close> for changes of each trait name, and the callbacks
  registered with \<^verbatim>\<open>on_click\<close>.

  The store tracks the callbacks this program registers: \<open>ObserveHandler c\<close> is the
  bound method \<^verbatim>\<open>observe_handler\<close> of the Component at address \<open>c\<close>, and \<open>OnClick\<close> is
  a closure \<^verbatim>\<open>on_click\<close> made by \<^verbatim>\<open>Component.__new__\<close>.
\<close>

record trait =
  tvalue :: pyval
  tvalidate :: "pyval \<Rightarrow> pyval option"

datatype handler = ObserveHandler addr

datatype click_handler = OnClick

record widget =
  type_name :: string
  is_button :: bool
  traits :: "string \<rightharpoonup> trait"
  attrs :: "string \<rightharpoonup> pyval"
  notifiers :: "string \<Rightarrow> handler list"
  click_handlers :: "click_handler list"

text \<open>
  The reference a Component passes to its Mediator (\<^verbatim>\<open>Union[str, "Component"]\<close>), and
  the change record the toolkit hands to an observer (\<^verbatim>\<open>name\<close>, \<^verbatim>\<open>old\<close>, \<^verbatim>\<open>new\<close>,
  \<^verbatim>\<open>owner\<close>, \<^verbatim>\<open>type\<close>).
\<close>

datatype reference = RefSelf addr | RefName string

record change =
  name :: string
  old :: pyval
  new :: pyval
  owner :: addr
  change_type :: string

text \<open>
  One call of \<^verbatim>\<open>Mediator.notify(reference, change)\<close>, with the Component whose handler
  made it.
\<close>

record notify_call =
  caller :: addr
  ref :: reference
  chg :: change

text \<open>
  The Mediator is an abstract class outside this file; a concrete one is given by the
  application. Of its \<^verbatim>\<open>notify\<close> the Component sees only whether the call returns or
  raises, which may depend on the calls made so far: \<open>None\<close> is a normal return, \<open>Some e\<close>
  raises \<open>e\<close>. The model covers the Mediators whose \<^verbatim>\<open>notify\<close> writes no widget of the
  store while it runs: what a Mediator does to widgets in reaction to a change is not
  part of it.
\<close>

type_synonym mediator = "notify_call list \<Rightarrow> reference \<Rightarrow> change \<Rightarrow> error option"

text \<open>
  A Component object. \<^verbatim>\<open>widget_name\<close> and \<^verbatim>\<open>__reference\<close> are assigned at the end of
  \<^verbatim>\<open>__init__\<close>: \<open>None\<close> is "not assigned yet".
\<close>

record component =
  mediator :: mediator
  widget :: addr
  widget_name :: "string option"
  reference :: "reference option"

record world =
  widgets :: "addr \<Rightarrow> widget"
  components :: "addr \<Rightarrow> component"
  notified :: "notify_call list"

type_synonym 'a result = "(error + 'a) \<times> world"

subsection \<open>Reading\<close>

text \<open>
  \<^verbatim>\<open>getattr(widget, n)\<close>: a trait gives its value, another attribute its value, and a
  name that is neither raises AttributeError. \<^verbatim>\<open>widget.has_trait(n)\<close> is true for
  traits only.
\<close>

definition py_getattr :: "widget \<Rightarrow> string \<Rightarrow> error + pyval" where
  "py_getattr w n =
     (case traits w n of
        Some t \<Rightarrow> Inr (tvalue t)
      | None \<Rightarrow>
          (case attrs w n of
             Some v \<Rightarrow> Inr v
           | None \<Rightarrow> Inl (AttributeError (type_name w) n)))"

definition has_trait :: "widget \<Rightarrow> string \<Rightarrow> bool" where
  "has_trait w n = (case traits w n of Some t \<Rightarrow> True | None \<Rightarrow> False)"

section \<open>The Component\<close>

subsection \<open>The notify handler\<close>

text \<open>
  \<^verbatim>\<open>
  def observe_handler(self, change) -> None:
      self._mediator.notify(self._reference, change)
  \<close>
  The property \<^verbatim>\<open>_reference\<close> raises AttributeError while \<^verbatim>\<open>__reference\<close> is not
  assigned. The call is recorded before its outcome is known; there is no
  \<^verbatim>\<open>try\<close> around it.
\<close>

definition observe_handler :: "addr \<Rightarrow> change \<Rightarrow> world \<Rightarrow> unit result" where
  "observe_handler self c s =
     (case reference (components s self) of
        None \<Rightarrow> (Inl (AttributeError ''Component'' ''_Component__reference''), s)
      | Some r \<Rightarrow>
          (let s' = s\<lparr>notified := notified s @ [\<lparr>caller = self, ref = r, chg = c\<rparr>]\<rparr>
           in case mediator (components s self) (notified s) r c of
                Some e \<Rightarrow> (Inl e, s')
              | None \<Rightarrow> (Inr (), s')))"

subsection \<open>Writing a trait\<close>

text \<open>
  The assignment to a trait belongs to the toolkit (traitlets), not to this repository;
  it is modelled here, after the handler it calls, from the toolkit's documented
  behaviour.
\<close>

fun call_handler :: "handler \<Rightarrow> change \<Rightarrow> world \<Rightarrow> unit result" where
  "call_handler (ObserveHandler c) ch s = observe_handler c ch s"

text \<open>
  The toolkit calls the handlers registered for the trait name in order; an exception
  of a handler is not caught and ends the loop.
\<close>

fun notify_change :: "handler list \<Rightarrow> change \<Rightarrow> world \<Rightarrow> unit result" where
  "notify_change [] ch s = (Inr (), s)"
| "notify_change (h # hs) ch s =
     (case call_handler h ch s of
        (Inl e, s') \<Rightarrow> (Inl e, s')
      | (Inr u, s') \<Rightarrow> notify_change hs ch s')"

text \<open>
  The toolkit's assignment to a trait: validate, store, and notify the observers when
  the stored value is not \<^verbatim>\<open>==\<close> to the old one.
\<close>

definition trait_set :: "addr \<Rightarrow> string \<Rightarrow> trait \<Rightarrow> pyval \<Rightarrow> world \<Rightarrow> unit result" where
  "trait_set wa n t v s =
     (let w = widgets s wa in
      case tvalidate t v of
        None \<Rightarrow> (Inl (TraitError (type_name w) n), s)
      | Some v' \<Rightarrow>
          (let s1 = s\<lparr>widgets := (widgets s)
                        (wa := w\<lparr>traits := (traits w)(n \<mapsto> t\<lparr>tvalue := v'\<rparr>)\<rparr>)\<rparr>
           in if py_eq (tvalue t) v' then (Inr (), s1)
              else notify_change (notifiers w n)
                     \<lparr>name = n, old = tvalue t, new = v', owner = wa,
                      change_type = ''change''\<rparr> s1))"


text \<open>\<^verbatim>\<open>widget.n = v\<close>: a trait is assigned as above, any other name is stored plainly.\<close>

definition py_setattr :: "addr \<Rightarrow> string \<Rightarrow> pyval \<Rightarrow> world \<Rightarrow> unit result" where
  "py_setattr wa n v s =
     (case traits (widgets s wa) n of
        Some t \<Rightarrow> trait_set wa n t v s
      | None \<Rightarrow>
          (let w = widgets s wa
           in (Inr (), s\<lparr>widgets := (widgets s)(wa := w\<lparr>attrs := (attrs w)(n \<mapsto> v)\<rparr>)\<rparr>)))"

subsection \<open>Bracket access, membership, multi-read, string conversion\<close>

text \<open>
  \<^verbatim>\<open>
  def __getitem__(self, trait): return getattr(self.widget, trait)
  def __setitem__(self, trait, value): self.widget.set_trait(trait, value)
  def __contains__(self, trait): return self.widget.has_trait(trait)
  def __str__(self): return self.widget_name
  \<close>
\<close>

definition Component_getitem :: "addr \<Rightarrow> string \<Rightarrow> world \<Rightarrow> error + pyval" where
  "Component_getitem self t s = py_getattr (widgets s (widget (components s self))) t"


definition Component_contains :: "addr \<Rightarrow> string \<Rightarrow> world \<Rightarrow> bool" where
  "Component_contains self t s = has_trait (widgets s (widget (components s self))) t"

definition Component_str :: "addr \<Rightarrow> world \<Rightarrow> error + string" where
  "Component_str self s =
     (case widget_name (components s self) of
        Some n \<Rightarrow> Inr n
      | None \<Rightarrow> Inl (AttributeError ''Component'' ''widget_name''))"

text \<open>
  \<^verbatim>\<open>
  def __call__(self, trait, *args):
      return itemgetter(trait, *args)(self)
  \<close>
  Without an argument the call itself fails (the parameter \<^verbatim>\<open>trait\<close> is required).
  \<^verbatim>\<open>itemgetter\<close> with one item returns \<^verbatim>\<open>self[item]\<close>; with several items it returns
  the tuple of the \<^verbatim>\<open>self[item]\<close>, read from left to right, the first failure ending
  the reads.
\<close>

fun getitems :: "addr \<Rightarrow> string list \<Rightarrow> world \<Rightarrow> error + pyval list" where
  "getitems self [] s = Inr []"
| "getitems self (t # ts) s =
     (case Component_getitem self t s of
        Inl e \<Rightarrow> Inl e
      | Inr v \<Rightarrow>
          (case getitems self ts s of
             Inl e \<Rightarrow> Inl e
           | Inr vs \<Rightarrow> Inr (v # vs)))"

definition Component_call :: "addr \<Rightarrow> string list \<Rightarrow> world \<Rightarrow> error + pyval" where
  "Component_call self ts s =
     (case ts of
        [] \<Rightarrow> Inl (TypeError ''__call__'' ''trait'')
      | [t] \<Rightarrow> Component_getitem self t s
      | t # u # us \<Rightarrow>
          (case getitems self (t # u # us) s of
             Inl e \<Rightarrow> Inl e
           | Inr vs \<Rightarrow> Inr (PTuple vs)))"

subsection \<open>Construction\<close>

text \<open>
  The trait \<^verbatim>\<open>Bool(False)\<close> accepts a bool, and the ints 0 and 1 as the bools they
  equal. \<^verbatim>\<open>HasTraits.add_traits(widget, value=Bool(False))\<close> gives the widget the trait
  \<^verbatim>\<open>value\<close>; its value is the default \<^verbatim>\<open>False\<close> unless the widget already stores one
  under that name. \<^verbatim>\<open>widget.on_click(f)\<close> appends the callback (each construction makes
  a new closure, so none is ever found registered already).
\<close>

fun bool_validate :: "pyval \<Rightarrow> pyval option" where
  "bool_validate (PBool b) = Some (PBool b)"
| "bool_validate (PInt i) =
     (if i = 1 then Some (PBool True) else if i = 0 then Some (PBool False) else None)"
| "bool_validate PNone = None"
| "bool_validate (PStr s) = None"
| "bool_validate (PTuple xs) = None"
| "bool_validate (PObj a) = None"

definition add_traits_value :: "widget \<Rightarrow> widget" where
  "add_traits_value w =
     w\<lparr>traits := (traits w)(''value'' \<mapsto>
          \<lparr>tvalue = (case traits w ''value'' of Some t \<Rightarrow> tvalue t | None \<Rightarrow> PBool False),
           tvalidate = bool_validate\<rparr>)\<rparr>"

definition on_click_register :: "widget \<Rightarrow> widget" where
  "on_click_register w = w\<lparr>click_handlers := click_handlers w @ [OnClick]\<rparr>"

text \<open>
  \<^verbatim>\<open>
  def __new__(cls, **kwargs):
      if isinstance(kwargs["widget"], widgets.Button):
          def on_click(w) -> None:
              w.value = not w.value
          HasTraits.add_traits(kwargs["widget"], value=Bool(False))
          kwargs["widget"].on_click(on_click)
      return super(Component, cls).__new__(cls)
  \<close>
  The arguments are passed by keyword. The new object is at the address \<open>self\<close>.
\<close>

definition Component_new :: "addr \<Rightarrow> world \<Rightarrow> world" where
  "Component_new wa s =
     (if is_button (widgets s wa)
      then s\<lparr>widgets := (widgets s)
                (wa := on_click_register (add_traits_value (widgets s wa)))\<rparr>
      else s)"

definition on_click :: "addr \<Rightarrow> world \<Rightarrow> unit result" where
  "on_click wa s =
     (case py_getattr (widgets s wa) ''value'' of
        Inl e \<Rightarrow> (Inl e, s)
      | Inr v \<Rightarrow> py_setattr wa ''value'' (PBool (\<not> truthy v)) s)"

text \<open>
  A click on a button (\<^verbatim>\<open>Button.click\<close>) runs the registered callbacks in order; the
  toolkit's dispatcher logs an exception of a callback and goes on.
\<close>

fun run_click_handlers :: "click_handler list \<Rightarrow> addr \<Rightarrow> world \<Rightarrow> world" where
  "run_click_handlers [] wa s = s"
| "run_click_handlers (OnClick # hs) wa s = run_click_handlers hs wa (snd (on_click wa s))"

definition click :: "addr \<Rightarrow> world \<Rightarrow> world" where
  "click wa s = run_click_handlers (click_handlers (widgets s wa)) wa s"

text \<open>
  \<^verbatim>\<open>widget.observe(handler, names=names)\<close> registers the handler under each name, unless
  it is registered under that name already.
\<close>

definition add_notifier :: "handler \<Rightarrow> string \<Rightarrow> widget \<Rightarrow> widget" where
  "add_notifier h n w =
     (if h \<in> set (notifiers w n) then w
      else w\<lparr>notifiers := (notifiers w)(n := notifiers w n @ [h])\<rparr>)"

fun observe :: "handler \<Rightarrow> string list \<Rightarrow> widget \<Rightarrow> widget" where
  "observe h [] w = w"
| "observe h (n # ns) w = observe h ns (add_notifier h n w)"

text \<open>
  \<^verbatim>\<open>
  def __init__(self, mediator, widget, widget_name=None, names=("value",),
               notify_self=False):
      super(Component, self).__init__()
      self.__mediator = mediator
      self.widget = widget
      try:
          self(*names)
      except AttributeError as e:
          raise ValueError(f"check 'names' parameter: {names}") from e
      self.widget.observe(self.observe_handler, names=names)
      self.widget_name = widget_name or f"{type(widget).__name__}Component"
      self.__reference = self if notify_self else self.widget_name
  \<close>
\<close>

definition default_widget_name :: "widget \<Rightarrow> string" where
  "default_widget_name w = type_name w @ ''Component''"

definition Component_init ::
  "addr \<Rightarrow> mediator \<Rightarrow> addr \<Rightarrow> string option \<Rightarrow> string list \<Rightarrow> bool \<Rightarrow> world \<Rightarrow> unit result" where
  "Component_init self m wa wn ns notify_self s =
     (let s1 = s\<lparr>components := (components s)
                   (self := \<lparr>mediator = m, widget = wa, widget_name = None,
                             reference = None\<rparr>)\<rparr>
      in case Component_call self ns s1 of
           Inl (AttributeError c n) \<Rightarrow>
             (Inl (ValueError ''check 'names' parameter: '' ns (AttributeError c n)), s1)
         | Inl (TypeError f p) \<Rightarrow> (Inl (TypeError f p), s1)
         | Inl (TraitError c n) \<Rightarrow> (Inl (TraitError c n), s1)
         | Inl (ValueError x y z) \<Rightarrow> (Inl (ValueError x y z), s1)
         | Inl (Raised k) \<Rightarrow> (Inl (Raised k), s1)
         | Inr vs \<Rightarrow>
             (let wa' = widget (components s1 self);
                  s2 = s1\<lparr>widgets := (widgets s1)
                          (wa' := observe (ObserveHandler self) ns (widgets s1 wa'))\<rparr>;
                  nm = (case wn of
                          None \<Rightarrow> default_widget_name (widgets s2 wa)
                        | Some x \<Rightarrow> if x \<noteq> [] then x else default_widget_name (widgets s2 wa));
                  s3 = s2\<lparr>components := (components s2)
                          (self := (components s2 self)\<lparr>widget_name := Some nm\<rparr>)\<rparr>;
                  r = (if notify_self then Some (RefSelf self)
                       else (case widget_name (components s3 self) of
                               Some x \<Rightarrow> Some (RefName x)
                             | None \<Rightarrow> None));
                  s4 = s3\<lparr>components := (components s3)
                          (self := (components s3 self)\<lparr>reference := r\<rparr>)\<rparr>
              in (Inr (), s4)))"

text \<open>\<^verbatim>\<open>Component(mediator=m, widget=wa, ...)\<close> runs \<^verbatim>\<open>__new__\<close>, then \<^verbatim>\<open>__init__\<close>.\<close>

definition Component ::
  "addr \<Rightarrow> mediator \<Rightarrow> addr \<Rightarrow> string option \<Rightarrow> string list \<Rightarrow> bool \<Rightarrow> world \<Rightarrow> unit result" where
  "Component self m wa wn ns notify_self s =
     Component_init self m wa wn ns notify_self (Component_new wa s)"

text \<open>Python's \<^verbatim>\<open>hasattr(widget, n)\<close>: whether \<^verbatim>\<open>getattr\<close> returns.\<close>

definition py_hasattr :: "widget \<Rightarrow> string \<Rightarrow> bool" where
  "py_hasattr w n = (case py_getattr w n of Inl e \<Rightarrow> False | Inr v \<Rightarrow> True)"


section \<open>Example objects\<close>

text \<open>
  A checkbox (with a \<^verbatim>\<open>value\<close> trait) and a button (without one), two Mediators, one
  that returns and one that raises, and a store holding the button at address 1 and the
  checkbox elsewhere. \<open>any_validate\<close> is a trait that accepts every value as it is.
\<close>

definition any_validate :: "pyval \<Rightarrow> pyval option" where
  "any_validate v = Some v"

definition checkbox :: widget where
  "checkbox =
     \<lparr>type_name = ''Checkbox'', is_button = False,
      traits = [''value'' \<mapsto> \<lparr>tvalue = PBool False, tvalidate = bool_validate\<rparr>,
                ''description'' \<mapsto> \<lparr>tvalue = PStr ''on'', tvalidate = any_validate\<rparr>],
      attrs = [''observe'' \<mapsto> PObj 100],
      notifiers = (\<lambda>n. []), click_handlers = []\<rparr>"

definition button :: widget where
  "button =
     \<lparr>type_name = ''Button'', is_button = True,
      traits = [''description'' \<mapsto> \<lparr>tvalue = PStr ''go'', tvalidate = any_validate\<rparr>],
      attrs = [''observe'' \<mapsto> PObj 100, ''on_click'' \<mapsto> PObj 101],
      notifiers = (\<lambda>n. []), click_handlers = []\<rparr>"

definition quiet :: mediator where
  "quiet h r c = None"

definition failing :: mediator where
  "failing h r c = Some (Raised 7)"

definition world0 :: world where
  "world0 =
     \<lparr>widgets = (\<lambda>a. if a = 1 then button else checkbox),
      components = (\<lambda>a. \<lparr>mediator = quiet, widget = 0, widget_name = None,
                            reference = None\<rparr>),
      notified = []\<rparr>"

section \<open>Properties\<close>

subsection \<open>Frame lemmas\<close>

lemma observe_handler_frame:
  "observe_handler self c s = (r, s') \<Longrightarrow>
     widgets s' = widgets s \<and> components s' = components s"
  by (auto simp: observe_handler_def Let_def split: option.splits)

lemma notify_change_frame:
  "notify_change hs c s = (r, s') \<Longrightarrow>
     widgets s' = widgets s \<and> components s' = components s"
proof (induction hs arbitrary: s)
  case Nil
  then show ?case by simp
next
  case (Cons h hs)
  obtain r1 s1 where h1: "call_handler h c s = (r1, s1)" by (cases "call_handler h c s")
  obtain a where ha: "h = ObserveHandler a" by (cases h)
  from h1 ha have f1: "widgets s1 = widgets s \<and> components s1 = components s"
    using observe_handler_frame by simp
  show ?case
  proof (cases r1)
    case (Inl e)
    with Cons.prems h1 f1 show ?thesis by simp
  next
    case (Inr u)
    with Cons.prems h1 have "notify_change hs c s1 = (r, s')" by simp
    from Cons.IH[OF this] f1 show ?thesis by simp
  qed
qed

lemma trait_set_refused:
  "tvalidate t v = None \<Longrightarrow> snd (trait_set wa n t v s) = s"
  by (simp add: trait_set_def Let_def)

lemma trait_set_widgets:
  assumes "tvalidate t v = Some v'"
  shows "widgets (snd (trait_set wa n t v s)) =
           (widgets s)(wa := (widgets s wa)\<lparr>traits := (traits (widgets s wa))(n \<mapsto> t\<lparr>tvalue := v'\<rparr>)\<rparr>)"
proof -
  let ?w = "widgets s wa"
  let ?s1 = "s\<lparr>widgets := (widgets s)(wa := ?w\<lparr>traits := (traits ?w)(n \<mapsto> t\<lparr>tvalue := v'\<rparr>)\<rparr>)\<rparr>"
  show ?thesis
  proof (cases "py_eq (tvalue t) v'")
    case True
    with assms show ?thesis by (simp add: trait_set_def Let_def)
  next
    case False
    let ?c = "\<lparr>name = n, old = tvalue t, new = v', owner = wa, change_type = ''change''\<rparr>"
    obtain r s' where h: "notify_change (notifiers ?w n) ?c ?s1 = (r, s')"
      by (cases "notify_change (notifiers ?w n) ?c ?s1")
    from notify_change_frame[OF h] have "widgets s' = widgets ?s1" by simp
    with assms False h show ?thesis by (simp add: trait_set_def Let_def)
  qed
qed

lemma trait_set_components:
  "components (snd (trait_set wa n t v s)) = components s"
proof (cases "tvalidate t v")
  case None
  then show ?thesis by (simp add: trait_set_refused)
next
  case (Some v')
  let ?w = "widgets s wa"
  let ?s1 = "s\<lparr>widgets := (widgets s)(wa := ?w\<lparr>traits := (traits ?w)(n \<mapsto> t\<lparr>tvalue := v'\<rparr>)\<rparr>)\<rparr>"
  show ?thesis
  proof (cases "py_eq (tvalue t) v'")
    case True
    with Some show ?thesis by (simp add: trait_set_def Let_def)
  next
    case False
    let ?c = "\<lparr>name = n, old = tvalue t, new = v', owner = wa, change_type = ''change''\<rparr>"
    obtain r s' where h: "notify_change (notifiers ?w n) ?c ?s1 = (r, s')"
      by (cases "notify_change (notifiers ?w n) ?c ?s1")
    from notify_change_frame[OF h] have "components s' = components ?s1" by simp
    with Some False h show ?thesis by (simp add: trait_set_def Let_def)
  qed
qed

lemma trait_set_single_observer:
  assumes "notifiers (widgets s wa) n = [ObserveHandler c]"
    and "reference (components s c) = Some r"
    and "tvalidate t v = Some v'"
    and "\<not> py_eq (tvalue t) v'"
  shows "notified (snd (trait_set wa n t v s)) =
           notified s @ [\<lparr>caller = c, ref = r,
             chg = \<lparr>name = n, old = tvalue t, new = v', owner = wa,
                    change_type = ''change''\<rparr>\<rparr>]"
  using assms
  by (simp add: trait_set_def Let_def observe_handler_def split: option.splits)

lemma trait_set_silent:
  assumes "tvalidate t v = Some v'" and "py_eq (tvalue t) v'"
  shows "notified (snd (trait_set wa n t v s)) = notified s"
  using assms by (simp add: trait_set_def Let_def)

subsection \<open>observe\<close>

lemma add_notifier_notifiers:
  "notifiers (add_notifier h k w) n =
     (if n = k \<and> h \<notin> set (notifiers w k) then notifiers w k @ [h] else notifiers w n)"
  by (simp add: add_notifier_def)

lemma add_notifier_rest:
  "traits (add_notifier h k w) = traits w"
  "attrs (add_notifier h k w) = attrs w"
  "type_name (add_notifier h k w) = type_name w"
  "is_button (add_notifier h k w) = is_button w"
  "click_handlers (add_notifier h k w) = click_handlers w"
  by (simp_all add: add_notifier_def)

lemma observe_rest:
  "traits (observe h ns w) = traits w \<and> attrs (observe h ns w) = attrs w \<and>
   type_name (observe h ns w) = type_name w \<and> is_button (observe h ns w) = is_button w \<and>
   click_handlers (observe h ns w) = click_handlers w"
  by (induction ns arbitrary: w) (simp_all add: add_notifier_rest)

lemma observe_notifiers:
  "notifiers (observe h ns w) n =
     (if n \<in> set ns \<and> h \<notin> set (notifiers w n) then notifiers w n @ [h] else notifiers w n)"
proof (induction ns arbitrary: w)
  case Nil
  then show ?case by simp
next
  case (Cons k ns)
  show ?case
    by (auto simp: Cons.IH add_notifier_notifiers)
qed

subsection \<open>Reading\<close>

lemma getitem_error:
  "Component_getitem self t s = Inl e \<Longrightarrow>
     e = AttributeError (type_name (widgets s (widget (components s self)))) t"
  by (auto simp: Component_getitem_def py_getattr_def split: option.splits)

lemma getitems_ok:
  "map (\<lambda>t. Component_getitem self t s) ts = map Inr vs \<Longrightarrow> getitems self ts s = Inr vs"
proof (induction ts arbitrary: vs)
  case Nil
  then show ?case by simp
next
  case (Cons t ts)
  then obtain v vs' where "vs = v # vs'" by (cases vs) auto
  with Cons show ?case by simp
qed

lemma getitems_missing:
  "t \<in> set ts \<Longrightarrow> Component_getitem self t s = Inl e \<Longrightarrow>
     \<exists>k. k \<in> set ts \<and>
       Component_getitem self k s =
         Inl (AttributeError (type_name (widgets s (widget (components s self)))) k) \<and>
       getitems self ts s =
         Inl (AttributeError (type_name (widgets s (widget (components s self)))) k)"
proof (induction ts)
  case Nil
  then show ?case by simp
next
  case (Cons u ts)
  show ?case
  proof (cases "Component_getitem self u s")
    case (Inl e')
    from getitem_error[OF Inl] Inl show ?thesis by auto
  next
    case (Inr v)
    with Cons.prems have "t \<in> set ts" by auto
    from Cons.IH[OF this Cons.prems(2)] obtain k where
      "k \<in> set ts" and
      "Component_getitem self k s =
         Inl (AttributeError (type_name (widgets s (widget (components s self)))) k)" and
      "getitems self ts s =
         Inl (AttributeError (type_name (widgets s (widget (components s self)))) k)"
      by blast
    with Inr show ?thesis by auto
  qed
qed

lemma call_missing:
  assumes "t \<in> set ts" and "Component_getitem self t s = Inl e"
  shows "\<exists>k. k \<in> set ts \<and>
       Component_getitem self k s =
         Inl (AttributeError (type_name (widgets s (widget (components s self)))) k) \<and>
       Component_call self ts s =
         Inl (AttributeError (type_name (widgets s (widget (components s self)))) k)"
proof (cases ts)
  case Nil
  with assms show ?thesis by simp
next
  case (Cons a as)
  show ?thesis
  proof (cases as)
    case Nil
    with Cons assms have "a = t" by simp
    with Cons Nil assms getitem_error[OF assms(2)] show ?thesis
      by (simp add: Component_call_def)
  next
    case (Cons b bs)
    from getitems_missing[OF assms] obtain k where
      k: "k \<in> set ts"
      "Component_getitem self k s =
         Inl (AttributeError (type_name (widgets s (widget (components s self)))) k)"
      "getitems self ts s =
         Inl (AttributeError (type_name (widgets s (widget (components s self)))) k)"
      by blast
    with \<open>ts = a # as\<close> Cons show ?thesis
      by (auto simp: Component_call_def)
  qed
qed

subsection \<open>Construction\<close>

lemma Component_new_frame:
  "components (Component_new wa s) = components s"
  "notified (Component_new wa s) = notified s"
  "notifiers (widgets (Component_new wa s) a) = notifiers (widgets s a)"
  "type_name (widgets (Component_new wa s) a) = type_name (widgets s a)"
  by (simp_all add: Component_new_def on_click_register_def add_traits_value_def)

lemma init_ok:
  assumes "Component_init self m wa wn ns b s = (Inr (), s')"
  shows "\<exists>nm. nm = (case wn of None \<Rightarrow> default_widget_name (widgets s wa)
                   | Some x \<Rightarrow> if x \<noteq> [] then x else default_widget_name (widgets s wa)) \<and>
          widgets s' = (widgets s)(wa := observe (ObserveHandler self) ns (widgets s wa)) \<and>
          components s' = (components s)
             (self := \<lparr>mediator = m, widget = wa, widget_name = Some nm,
                       reference = Some (if b then RefSelf self else RefName nm)\<rparr>) \<and>
          notified s' = notified s"
  using assms
  by (auto simp: Component_init_def Let_def default_widget_name_def observe_rest
      split: sum.splits error.splits option.splits)


lemma Component_ok:
  assumes "Component self m wa wn ns b s = (Inr (), s')"
  shows "\<exists>nm. nm = (case wn of None \<Rightarrow> type_name (widgets s wa) @ ''Component''
                   | Some x \<Rightarrow> if x \<noteq> [] then x else type_name (widgets s wa) @ ''Component'') \<and>
          widgets s' = (widgets (Component_new wa s))
             (wa := observe (ObserveHandler self) ns (widgets (Component_new wa s) wa)) \<and>
          components s' = (components s)
             (self := \<lparr>mediator = m, widget = wa, widget_name = Some nm,
                       reference = Some (if b then RefSelf self else RefName nm)\<rparr>) \<and>
          notified s' = notified s"
  using init_ok[OF assms[unfolded Component_def]]
  by (cases wn) (simp_all add: Component_new_frame default_widget_name_def)

text \<open>
  C1. For every widget and every names tuple with a name that is not an attribute of the
  widget (as \<^verbatim>\<open>__init__\<close> finds it, that is after \<^verbatim>\<open>__new__\<close> has given a button its
  \<^verbatim>\<open>value\<close> trait), constructing a Component raises the ValueError whose message carries
  the names tuple, chained to the AttributeError of a missing name, and no observer is
  registered on any widget.
\<close>

theorem Component_missing_name:
  assumes "n \<in> set ns"
    and "\<not> py_hasattr (widgets (Component_new wa s) wa) n"
  shows "\<exists>k. k \<in> set ns \<and> \<not> py_hasattr (widgets (Component_new wa s) wa) k \<and>
           fst (Component self m wa wn ns b s) =
             Inl (ValueError ''check 'names' parameter: '' ns
                    (AttributeError (type_name (widgets s wa)) k)) \<and>
           (\<forall>a. notifiers (widgets (snd (Component self m wa wn ns b s)) a) =
                 notifiers (widgets s a))"
proof -
  let ?s0 = "Component_new wa s"
  let ?s1 = "?s0\<lparr>components := (components ?s0)
               (self := \<lparr>mediator = m, widget = wa, widget_name = None, reference = None\<rparr>)\<rparr>"
  from assms(2) obtain e where "Component_getitem self n ?s1 = Inl e"
    by (auto simp: py_hasattr_def Component_getitem_def split: sum.splits)
  from call_missing[OF assms(1) this] obtain k where
    k: "k \<in> set ns" and
    g: "Component_getitem self k ?s1 = Inl (AttributeError (type_name (widgets ?s0 wa)) k)" and
    c: "Component_call self ns ?s1 = Inl (AttributeError (type_name (widgets ?s0 wa)) k)"
    by auto
  from g have h: "\<not> py_hasattr (widgets ?s0 wa) k"
    by (simp add: py_hasattr_def Component_getitem_def)
  from c have r: "Component self m wa wn ns b s =
      (Inl (ValueError ''check 'names' parameter: '' ns
             (AttributeError (type_name (widgets ?s0 wa)) k)), ?s1)"
    by (simp add: Component_def Component_init_def Let_def)
  show ?thesis
    using k h by (auto simp: r Component_new_frame)
qed

theorem Component_missing_name_witness:
  "\<not> py_hasattr (widgets (Component_new 0 world0) 0) ''nope'' \<and>
   fst (Component 5 quiet 0 None [''value'', ''nope''] False world0) =
     Inl (ValueError ''check 'names' parameter: '' [''value'', ''nope'']
            (AttributeError ''Checkbox'' ''nope'')) \<and>
   notifiers (widgets (snd (Component 5 quiet 0 None [''value'', ''nope''] False world0)) 0)
     ''value'' = []"
proof -
  let ?r = "Component 5 quiet 0 None [''value'', ''nope''] False world0"
  have h1: "''nope'' \<in> set [''value'', ''nope'']" by simp
  have h2: "\<not> py_hasattr (widgets (Component_new 0 world0) 0) ''nope''"
    by (simp add: py_hasattr_def py_getattr_def Component_new_def world0_def checkbox_def)
  have h3: "py_hasattr (widgets (Component_new 0 world0) 0) ''value''"
    by (simp add: py_hasattr_def py_getattr_def Component_new_def world0_def checkbox_def)
  from Component_missing_name[OF h1 h2, of 5 quiet None False]
  obtain k where k: "k \<in> set [''value'', ''nope'']"
    and m: "\<not> py_hasattr (widgets (Component_new 0 world0) 0) k"
    and r: "fst ?r = Inl (ValueError ''check 'names' parameter: '' [''value'', ''nope'']
                   (AttributeError (type_name (widgets world0 0)) k))"
    and o: "\<forall>a. notifiers (widgets (snd ?r) a) = notifiers (widgets world0 a)"
    by blast
  from k m h3 have "k = ''nope''" by auto
  with r have e: "fst ?r = Inl (ValueError ''check 'names' parameter: '' [''value'', ''nope'']
            (AttributeError ''Checkbox'' ''nope''))"
    by (simp add: world0_def checkbox_def)
  from o have "notifiers (widgets (snd ?r) 0) ''value'' = notifiers (widgets world0 0) ''value''"
    by simp
  then show ?thesis using e h2 by (simp add: world0_def checkbox_def)
qed

text \<open>
  C9. For every widget, constructing a Component with the empty names tuple fails with
  the TypeError of the multi-read call (its required argument \<^verbatim>\<open>trait\<close> is missing),
  not with the ValueError, and no observer is registered on any widget.
\<close>

theorem Component_empty_names:
  "fst (Component self m wa wn [] b s) =
     Inl (TypeError ''__call__'' ''trait'') \<and>
   (\<forall>a. notifiers (widgets (snd (Component self m wa wn [] b s)) a) =
         notifiers (widgets s a))"
  by (simp add: Component_def Component_init_def Component_call_def Let_def
      Component_new_frame)

theorem Component_empty_names_witness:
  "fst (Component 5 quiet 0 None [] False world0) =
     Inl (TypeError ''__call__'' ''trait'') \<and>
   notifiers (widgets (snd (Component 5 quiet 0 None [] False world0)) 0) ''value'' = []"
proof -
  note h = Component_empty_names[of 5 quiet 0 None False world0]
  from h have "notifiers (widgets (snd (Component 5 quiet 0 None [] False world0)) 0) ''value''
     = notifiers (widgets world0 0) ''value''" by simp
  with h show ?thesis by (simp add: world0_def checkbox_def)
qed

text \<open>
  C5. String conversion of a constructed Component returns its display name
  (\<^verbatim>\<open>widget_name\<close>), and a Component constructed without a \<^verbatim>\<open>widget_name\<close> has the
  widget's type name followed by "Component" as its display name.
\<close>

theorem Component_str_display_name:
  assumes "Component self m wa wn ns b s = (Inr (), s')"
  shows "\<exists>nm. widget_name (components s' self) = Some nm \<and>
           Component_str self s' = Inr nm \<and>
           (wn = None \<longrightarrow> nm = type_name (widgets s wa) @ ''Component'')"
  using Component_ok[OF assms] by (auto simp: Component_str_def)

theorem Component_str_display_name_witness:
  "Component_str 5 (snd (Component 5 quiet 0 None [''value''] False world0)) =
     Inr ''CheckboxComponent''"
proof -
  have ok: "Component 5 quiet 0 None [''value''] False world0 =
      (Inr (), snd (Component 5 quiet 0 None [''value''] False world0))"
    by (simp add: Component_def Component_init_def Component_new_def Component_call_def
        Component_getitem_def py_getattr_def world0_def checkbox_def Let_def)
  from Component_str_display_name[OF ok] show ?thesis
    by (auto simp: world0_def checkbox_def)
qed

text \<open>
  C10. A Component constructed with the empty string as \<^verbatim>\<open>widget_name\<close> has the default
  display name (type name followed by "Component"), and the string conversion of a
  constructed Component is never the empty string.
\<close>

theorem Component_str_never_empty:
  assumes "Component self m wa wn ns b s = (Inr (), s')"
  shows "(wn = Some [] \<longrightarrow>
            Component_str self s' = Inr (type_name (widgets s wa) @ ''Component'')) \<and>
         (\<exists>nm. Component_str self s' = Inr nm \<and> nm \<noteq> [])"
  using Component_ok[OF assms] by (auto simp: Component_str_def split: option.splits)

theorem Component_str_never_empty_witness:
  "Component_str 5 (snd (Component 5 quiet 1 (Some []) [''value''] False world0)) =
     Inr ''ButtonComponent''"
proof -
  have ok: "Component 5 quiet 1 (Some []) [''value''] False world0 =
      (Inr (), snd (Component 5 quiet 1 (Some []) [''value''] False world0))"
    by (simp add: Component_def Component_init_def Component_new_def Component_call_def
        Component_getitem_def py_getattr_def world0_def button_def Let_def
        add_traits_value_def on_click_register_def)
  from Component_str_never_empty[OF ok] show ?thesis
    by (auto simp: world0_def button_def)
qed

text \<open>
  C7. The notify handler of a constructed Component calls the Mediator's notify once
  with the Component's reference and the change, returns nothing, and when the Mediator
  raises, the handler raises the same error: nothing is caught and nothing is retried.
\<close>

theorem observe_handler_propagates:
  assumes "Component self m wa wn ns b s = (Inr (), s1)"
  shows "\<exists>r. reference (components s1 self) = Some r \<and>
           observe_handler self c s1 =
             ((case m (notified s1) r c of Some e \<Rightarrow> Inl e | None \<Rightarrow> Inr ()),
              s1\<lparr>notified := notified s1 @ [\<lparr>caller = self, ref = r, chg = c\<rparr>]\<rparr>)"
  using Component_ok[OF assms]
  by (auto simp: observe_handler_def Let_def split: option.splits)

theorem observe_handler_propagates_witness:
  "fst (observe_handler 5
          \<lparr>name = ''value'', old = PBool False, new = PBool True, owner = 0,
           change_type = ''change''\<rparr>
          (snd (Component 5 failing 0 None [''value''] True world0))) = Inl (Raised 7)"
proof -
  have ok: "Component 5 failing 0 None [''value''] True world0 =
      (Inr (), snd (Component 5 failing 0 None [''value''] True world0))"
    by (simp add: Component_def Component_init_def Component_new_def Component_call_def
        Component_getitem_def py_getattr_def world0_def checkbox_def Let_def)
  from observe_handler_propagates[OF ok, where c = "\<lparr>name = ''value'', old = PBool False,
      new = PBool True, owner = 0, change_type = ''change''\<rparr>"]
  show ?thesis
    by (auto simp: failing_def)
qed

text \<open>
  C3, as stated, fails: called with exactly one name, the Component returns the value of
  that attribute itself, not a tuple holding it.
\<close>

theorem Component_call_single_not_tuple:
  "Component_call 5 [''value''] (snd (Component 5 quiet 0 None [''value''] False world0)) =
     Inr (PBool False) \<and>
   Component_call 5 [''value''] (snd (Component 5 quiet 0 None [''value''] False world0)) \<noteq>
     Inr (PTuple [PBool False])"
  by (simp add: Component_def Component_init_def Component_new_def Component_call_def
        Component_getitem_def py_getattr_def world0_def checkbox_def Let_def add_notifier_rest)

text \<open>
  C3, amended. For every Component and every sequence of names that all exist on the
  wrapped widget, calling the Component with two or more names returns the tuple of
  their current values in the order of the names, and calling it with exactly one name
  returns the value of that attribute itself.
\<close>

theorem Component_call_values:
  assumes "ts \<noteq> []"
    and "map (\<lambda>t. Component_getitem self t s) ts = map Inr vs"
  shows "Component_call self ts s = Inr (if length ts = 1 then hd vs else PTuple vs)"
proof (cases ts)
  case Nil
  with assms show ?thesis by simp
next
  case (Cons a as)
  show ?thesis
  proof (cases as)
    case Nil
    with Cons assms show ?thesis by (cases vs) (auto simp: Component_call_def)
  next
    case (Cons b bs)
    from getitems_ok[OF assms(2)] \<open>ts = a # as\<close> Cons show ?thesis
      by (simp add: Component_call_def)
  qed
qed

theorem Component_call_values_witness:
  "Component_call 5 [''description'', ''value'']
     (snd (Component 5 quiet 0 None [''value''] False world0)) =
     Inr (PTuple [PStr ''on'', PBool False]) \<and>
   Component_call 5 [''description'']
     (snd (Component 5 quiet 0 None [''value''] False world0)) = Inr (PStr ''on'')"
proof -
  let ?s = "snd (Component 5 quiet 0 None [''value''] False world0)"
  have g: "Component_getitem 5 ''description'' ?s = Inr (PStr ''on'')"
    "Component_getitem 5 ''value'' ?s = Inr (PBool False)"
    by (simp_all add: Component_def Component_init_def Component_new_def Component_call_def
        Component_getitem_def py_getattr_def world0_def checkbox_def Let_def add_notifier_rest)
  have h2: "map (\<lambda>t. Component_getitem 5 t ?s) [''description'', ''value''] =
      map Inr [PStr ''on'', PBool False]" using g by simp
  have h1: "map (\<lambda>t. Component_getitem 5 t ?s) [''description''] = map Inr [PStr ''on'']"
    using g by simp
  have n2: "[''description'', ''value''] \<noteq> []" and n1: "[''description''] \<noteq> []" by simp_all
  from Component_call_values[OF n2 h2] Component_call_values[OF n1 h1]
  show ?thesis by simp
qed

text \<open>
  C8, as stated, fails: an attribute of the widget that is not a trait (here the method
  \<^verbatim>\<open>observe\<close>) is read by the indexed read and is not reported as a member.
\<close>

theorem Component_contains_not_attribute:
  "Component_getitem 5 ''observe'' (snd (Component 5 quiet 0 None [''value''] False world0)) =
     Inr (PObj 100) \<and>
   \<not> Component_contains 5 ''observe'' (snd (Component 5 quiet 0 None [''value''] False world0))"
  by (simp add: Component_def Component_init_def Component_new_def Component_call_def
        Component_getitem_def Component_contains_def has_trait_def py_getattr_def
        world0_def checkbox_def Let_def add_notifier_rest)

text \<open>
  C8, amended. The membership test reports whether the name is a trait of the wrapped
  widget. Every member is read by the indexed read; the indexed read succeeds for the
  members and for the other attributes of the widget, which are not members.
\<close>

theorem Component_contains_traits:
  "(Component_contains self n s \<longleftrightarrow>
      n \<in> dom (traits (widgets s (widget (components s self))))) \<and>
   (Component_contains self n s \<longrightarrow> (\<exists>v. Component_getitem self n s = Inr v)) \<and>
   ((\<exists>v. Component_getitem self n s = Inr v) \<longleftrightarrow>
      Component_contains self n s \<or>
      n \<in> dom (attrs (widgets s (widget (components s self)))))"
  by (auto simp: Component_contains_def Component_getitem_def has_trait_def py_getattr_def
      split: option.splits)

theorem Component_contains_traits_witness:
  "Component_contains 5 ''value'' (snd (Component 5 quiet 0 None [''value''] False world0)) \<and>
   Component_getitem 5 ''value'' (snd (Component 5 quiet 0 None [''value''] False world0)) =
     Inr (PBool False)"
proof -
  let ?s = "snd (Component 5 quiet 0 None [''value''] False world0)"
  have t: "traits (widgets ?s (widget (components ?s 5))) ''value'' =
      Some \<lparr>tvalue = PBool False, tvalidate = bool_validate\<rparr>"
    by (simp add: Component_def Component_init_def Component_new_def Component_call_def
        Component_getitem_def py_getattr_def world0_def checkbox_def Let_def add_notifier_rest)
  then have d: "''value'' \<in> dom (traits (widgets ?s (widget (components ?s 5))))" by blast
  from Component_contains_traits[of 5 "''value''" ?s] d
  have c: "Component_contains 5 ''value'' ?s" by blast
  have "Component_getitem 5 ''value'' ?s = Inr (PBool False)"
    using t by (simp add: Component_getitem_def py_getattr_def)
  with c show ?thesis by simp
qed




lemma py_setattr_frame:
  "components (snd (py_setattr wa n v s)) = components s \<and>
   notifiers (widgets (snd (py_setattr wa n v s)) a) = notifiers (widgets s a) \<and>
   click_handlers (widgets (snd (py_setattr wa n v s)) a) = click_handlers (widgets s a)"
proof (cases "traits (widgets s wa) n")
  case None
  then show ?thesis by (simp add: py_setattr_def Let_def)
next
  case (Some t)
  then have e: "py_setattr wa n v s = trait_set wa n t v s" by (simp add: py_setattr_def)
  show ?thesis
  proof (cases "tvalidate t v")
    case None
    then show ?thesis by (simp add: e trait_set_refused)
  next
    case (Some v')
    then show ?thesis by (simp add: e trait_set_widgets trait_set_components)
  qed
qed







lemma click_step:
  assumes t: "traits (widgets s wa) ''value'' = Some \<lparr>tvalue = PBool x, tvalidate = bool_validate\<rparr>"
    and c: "click_handlers (widgets s wa) = [OnClick]"
    and o: "notifiers (widgets s wa) ''value'' = [ObserveHandler self]"
    and r: "reference (components s self) = Some r"
  shows "traits (widgets (click wa s) wa) ''value'' =
           Some \<lparr>tvalue = PBool (\<not> x), tvalidate = bool_validate\<rparr> \<and>
         click_handlers (widgets (click wa s) wa) = [OnClick] \<and>
         notifiers (widgets (click wa s) wa) ''value'' = [ObserveHandler self] \<and>
         components (click wa s) = components s \<and>
         notified (click wa s) =
           notified s @ [\<lparr>caller = self, ref = r,
             chg = \<lparr>name = ''value'', old = PBool x, new = PBool (\<not> x), owner = wa,
                    change_type = ''change''\<rparr>\<rparr>]"
proof -
  let ?t = "\<lparr>tvalue = PBool x, tvalidate = bool_validate\<rparr>"
  have g: "py_getattr (widgets s wa) ''value'' = Inr (PBool x)"
    using t by (simp add: py_getattr_def)
  have e: "click wa s = snd (py_setattr wa ''value'' (PBool (\<not> x)) s)"
    using c g by (simp add: click_def on_click_def)
  have e2: "py_setattr wa ''value'' (PBool (\<not> x)) s = trait_set wa ''value'' ?t (PBool (\<not> x)) s"
    using t by (simp add: py_setattr_def)
  have v: "tvalidate ?t (PBool (\<not> x)) = Some (PBool (\<not> x))" by simp
  have mut: "\<not> py_eq (tvalue ?t) (PBool (\<not> x))" by simp
  from trait_set_single_observer[OF o r v mut]
  have n: "notified (click wa s) =
           notified s @ [\<lparr>caller = self, ref = r,
             chg = \<lparr>name = ''value'', old = PBool x, new = PBool (\<not> x), owner = wa,
                    change_type = ''change''\<rparr>\<rparr>]"
    by (simp add: e e2)
  have "traits (widgets (click wa s) wa) ''value'' =
           Some \<lparr>tvalue = PBool (\<not> x), tvalidate = bool_validate\<rparr>"
    by (simp add: e e2 trait_set_widgets[OF v])
  moreover have "click_handlers (widgets (click wa s) wa) = [OnClick]"
    using c by (simp add: e py_setattr_frame)
  moreover have "notifiers (widgets (click wa s) wa) ''value'' = [ObserveHandler self]"
    using o by (simp add: e py_setattr_frame)
  moreover have "components (click wa s) = components s"
    by (simp add: e py_setattr_frame)
  ultimately show ?thesis using n by simp
qed

lemma clicks_invariant:
  assumes t: "traits (widgets s wa) ''value'' = Some \<lparr>tvalue = PBool False, tvalidate = bool_validate\<rparr>"
    and c: "click_handlers (widgets s wa) = [OnClick]"
    and o: "notifiers (widgets s wa) ''value'' = [ObserveHandler self]"
    and r: "reference (components s self) = Some r"
  shows "traits (widgets ((click wa ^^ k) s) wa) ''value'' =
           Some \<lparr>tvalue = PBool (odd k), tvalidate = bool_validate\<rparr> \<and>
         click_handlers (widgets ((click wa ^^ k) s) wa) = [OnClick] \<and>
         notifiers (widgets ((click wa ^^ k) s) wa) ''value'' = [ObserveHandler self] \<and>
         components ((click wa ^^ k) s) = components s"
proof (induction k)
  case 0
  with assms show ?case by simp
next
  case (Suc k)
  then have r': "reference (components ((click wa ^^ k) s) self) = Some r"
    using r by simp
  from Suc click_step[OF _ _ _ r', of wa "odd k"]
  show ?case by simp
qed

text \<open>
  On a button that nothing has wired yet (no \<^verbatim>\<open>value\<close> attribute, no click callback, no
  observer of \<^verbatim>\<open>value\<close>), a construction with \<^verbatim>\<open>value\<close> among the names does what the
  docstring of \<^verbatim>\<open>__new__\<close> says: the button gets the boolean trait \<^verbatim>\<open>value\<close>, false at
  first, and each click negates it and calls the Mediator's notify exactly once.
\<close>

theorem button_click_toggles:
  assumes ok: "Component self m wa wn ns b s = (Inr (), s1)"
    and btn: "is_button (widgets s wa)"
    and nov: "\<not> py_hasattr (widgets s wa) ''value''"
    and noc: "click_handlers (widgets s wa) = []"
    and lone: "notifiers (widgets s wa) ''value'' = []"
    and obs: "''value'' \<in> set ns"
  shows "\<exists>nm. Component_str self s1 = Inr nm \<and>
           Component_contains self ''value'' s1 \<and>
           (\<forall>k. Component_getitem self ''value'' ((click wa ^^ k) s1) = Inr (PBool (odd k)) \<and>
                notified ((click wa ^^ Suc k) s1) =
                  notified ((click wa ^^ k) s1) @
                    [\<lparr>caller = self, ref = (if b then RefSelf self else RefName nm),
                      chg = \<lparr>name = ''value'', old = PBool (odd k), new = PBool (even k),
                             owner = wa, change_type = ''change''\<rparr>\<rparr>])"
proof -
  from Component_ok[OF ok] obtain nm where
    w1: "widgets s1 = (widgets (Component_new wa s))
           (wa := observe (ObserveHandler self) ns (widgets (Component_new wa s) wa))"
    and c1: "components s1 = (components s)
             (self := \<lparr>mediator = m, widget = wa, widget_name = Some nm,
                       reference = Some (if b then RefSelf self else RefName nm)\<rparr>)"
    by blast
  let ?r = "if b then RefSelf self else RefName nm"
  from nov have tn: "traits (widgets s wa) ''value'' = None"
    by (auto simp: py_hasattr_def py_getattr_def split: option.splits)
  have t: "traits (widgets s1 wa) ''value'' =
      Some \<lparr>tvalue = PBool False, tvalidate = bool_validate\<rparr>"
    using btn tn
    by (simp add: w1 observe_rest Component_new_def on_click_register_def add_traits_value_def)
  have c: "click_handlers (widgets s1 wa) = [OnClick]"
    using btn noc
    by (simp add: w1 observe_rest Component_new_def on_click_register_def add_traits_value_def)
  have o: "notifiers (widgets s1 wa) ''value'' = [ObserveHandler self]"
    using obs lone by (simp add: w1 observe_notifiers Component_new_frame)
  have r: "reference (components s1 self) = Some ?r" by (simp add: c1)
  have str: "Component_str self s1 = Inr nm" by (simp add: Component_str_def c1)
  have mem: "Component_contains self ''value'' s1"
    using t by (simp add: Component_contains_def has_trait_def c1)
  have step: "Component_getitem self ''value'' ((click wa ^^ k) s1) = Inr (PBool (odd k)) \<and>
                notified ((click wa ^^ Suc k) s1) =
                  notified ((click wa ^^ k) s1) @
                    [\<lparr>caller = self, ref = ?r,
                      chg = \<lparr>name = ''value'', old = PBool (odd k), new = PBool (even k),
                             owner = wa, change_type = ''change''\<rparr>\<rparr>]" for k
  proof -
    note inv = clicks_invariant[OF t c o r, of k]
    from inv have rk: "reference (components ((click wa ^^ k) s1) self) = Some ?r"
      using r by simp
    from inv have g: "Component_getitem self ''value'' ((click wa ^^ k) s1) = Inr (PBool (odd k))"
      by (simp add: Component_getitem_def py_getattr_def c1)
    from inv click_step[OF _ _ _ rk, of wa "odd k"]
    have "notified (click wa ((click wa ^^ k) s1)) =
           notified ((click wa ^^ k) s1) @ [\<lparr>caller = self, ref = ?r,
             chg = \<lparr>name = ''value'', old = PBool (odd k), new = PBool (\<not> odd k), owner = wa,
                    change_type = ''change''\<rparr>\<rparr>]"
      by blast
    with g show ?thesis by simp
  qed
  from str mem step show ?thesis by blast
qed

theorem button_click_toggles_witness:
  "Component_getitem 5 ''value'' (snd (Component 5 quiet 1 None [''value''] False world0)) =
     Inr (PBool False) \<and>
   Component_getitem 5 ''value''
     (click 1 (snd (Component 5 quiet 1 None [''value''] False world0))) = Inr (PBool True) \<and>
   notified (click 1 (snd (Component 5 quiet 1 None [''value''] False world0))) =
     [\<lparr>caller = 5, ref = RefName ''ButtonComponent'',
       chg = \<lparr>name = ''value'', old = PBool False, new = PBool True, owner = 1,
              change_type = ''change''\<rparr>\<rparr>]"
proof -
  let ?s1 = "snd (Component 5 quiet 1 None [''value''] False world0)"
  have ok: "Component 5 quiet 1 None [''value''] False world0 = (Inr (), ?s1)"
    by (simp add: Component_def Component_init_def Component_new_def Component_call_def
        Component_getitem_def py_getattr_def world0_def button_def Let_def
        add_traits_value_def on_click_register_def)
  have btn: "is_button (widgets world0 1)" by (simp add: world0_def button_def)
  have nov: "\<not> py_hasattr (widgets world0 1) ''value''"
    by (simp add: py_hasattr_def py_getattr_def world0_def button_def)
  have noc: "click_handlers (widgets world0 1) = []" by (simp add: world0_def button_def)
  have lone: "notifiers (widgets world0 1) ''value'' = []" by (simp add: world0_def button_def)
  have obs: "''value'' \<in> set [''value'']" by simp
  have n0: "notified ?s1 = []"
    using Component_ok[OF ok] by (auto simp: world0_def)
  have nm: "Component_str 5 ?s1 = Inr ''ButtonComponent''"
    using Component_ok[OF ok] by (auto simp: Component_str_def world0_def button_def)
  from button_click_toggles[OF ok btn nov noc lone obs] obtain nm' where
    s: "Component_str 5 ?s1 = Inr nm'"
    and a: "\<forall>k. Component_getitem 5 ''value'' ((click 1 ^^ k) ?s1) = Inr (PBool (odd k)) \<and>
                notified ((click 1 ^^ Suc k) ?s1) =
                  notified ((click 1 ^^ k) ?s1) @
                    [\<lparr>caller = 5, ref = (if False then RefSelf 5 else RefName nm'),
                      chg = \<lparr>name = ''value'', old = PBool (odd k), new = PBool (even k),
                             owner = 1, change_type = ''change''\<rparr>\<rparr>]"
    by blast
  from s nm have e: "nm' = ''ButtonComponent''" by simp
  from a[rule_format, of 0] a[rule_format, of 1] n0 show ?thesis
    by (simp add: e)
qed

text \<open>
  C4. The claim asks, for every button, that after the construction each click negates
  \<^verbatim>\<open>value\<close> and calls the Mediator's notify exactly once. \<^verbatim>\<open>__new__\<close> adds the trait
  and the click callback before \<^verbatim>\<open>__init__\<close> validates the names, nothing removes them
  when the validation fails, and nothing looks for a callback added before. So on a
  button that a failed construction has left behind, the next construction adds a second
  callback: a click negates \<^verbatim>\<open>value\<close> twice, it reads false before and after the
  click, and notify is called twice.
\<close>

theorem button_wired_twice:
  "fst (Component 5 quiet 1 None [''nope''] False world0) =
     Inl (ValueError ''check 'names' parameter: '' [''nope'']
            (AttributeError ''Button'' ''nope'')) \<and>
   notifiers (widgets (snd (Component 5 quiet 1 None [''nope''] False world0)) 1) ''value'' = [] \<and>
   fst (Component 6 quiet 1 None [''value''] False
          (snd (Component 5 quiet 1 None [''nope''] False world0))) = Inr () \<and>
   click_handlers (widgets
      (snd (Component 6 quiet 1 None [''value''] False
          (snd (Component 5 quiet 1 None [''nope''] False world0)))) 1) = [OnClick, OnClick] \<and>
   Component_getitem 6 ''value''
      (snd (Component 6 quiet 1 None [''value''] False
          (snd (Component 5 quiet 1 None [''nope''] False world0)))) = Inr (PBool False) \<and>
   Component_getitem 6 ''value''
      (click 1 (snd (Component 6 quiet 1 None [''value''] False
          (snd (Component 5 quiet 1 None [''nope''] False world0))))) = Inr (PBool False) \<and>
   map (\<lambda>x. (caller x, old (chg x), new (chg x)))
      (notified (click 1 (snd (Component 6 quiet 1 None [''value''] False
          (snd (Component 5 quiet 1 None [''nope''] False world0)))))) =
     [(6, PBool False, PBool True), (6, PBool True, PBool False)]"
  by (simp add: Component_def Component_init_def Component_new_def Component_call_def
        Component_getitem_def py_getattr_def py_setattr_def trait_set_def
        observe_handler_def add_notifier_def quiet_def click_def on_click_def
        add_traits_value_def on_click_register_def
        world0_def button_def Let_def)

end
